theory Spec2Isabelle
  imports Main "HOL-Library.List_Lexorder" "HOL-Library.Char_ord"
begin

section \<open>Values on the wire\<close>

text \<open>
  Socket payloads and HTTP bodies are JSON values.  User, workspace and task ids are
  modelled as strings compared with strict equality, as the JavaScript
  does with \<^verbatim>\<open>===\<close> and \<^verbatim>\<open>!==\<close>.  Timestamps are the ISO-8601 strings of
  \<^verbatim>\<open>new Date().toISOString()\<close>; on that fixed-width format the lexicographic order of
  strings is the chronological order.
\<close>

datatype json =
    JNull
  | JBool bool
  | JNum int
  | JStr string
  | JArr "json list"
  | JObj "(string \<times> json) list"

section \<open>Client store (the zustand store \<^verbatim>\<open>use_app_store\<close>)\<close>

subsection \<open>Event payloads\<close>

record task_status_updated_payload =
  task_id :: string
  status :: string
  timestamp :: string

subsection \<open>Entities\<close>

record user_profile =
  user_id :: string
  name :: string
  email :: string
  avatar_url :: string
  role :: string
  created_at :: string
  updated_at :: string

record workspace =
  workspace_id :: string
  name :: string
  owner_id :: string
  created_at :: string
  updated_at :: string
  visibility :: string

record comment =
  comment_id :: string
  author_id :: string
  content :: string
  created_at :: string
  updated_at :: string
  mentions :: "string list"
  user_name :: "string option"

text \<open>The payload of a comment event is \<^verbatim>\<open>Comment & { task_id: string }\<close>.\<close>

record comment_created_payload = comment +
  task_id :: string

record attachment =
  attachment_id :: string
  file_url :: string
  filename :: string
  created_at :: string

record activity =
  activity_id :: string
  user_id :: string
  action_type :: string
  description :: string
  timestamp :: string

record notification =
  notification_id :: string
  type :: string
  message :: string
  is_read :: bool
  created_at :: string

datatype theme = Light | Dark

record user_preferences =
  theme :: theme
  notifications_enabled :: bool
  language :: string

record task =
  task_id :: string
  workspace_id :: string
  created_by :: string
  assigned_to :: "string option"
  title :: string
  description :: "string option"
  due_date :: "string option"
  priority :: string
  status :: string
  is_favorited :: bool
  created_at :: string
  updated_at :: string
  tags :: "string list"
  comments :: "comment list"
  attachments :: "attachment list"
  activity_log :: "activity list"

text \<open>The socket.io client object: where it connects and the credential it presents.\<close>

record client_socket =
  uri :: string
  auth :: string

record app_state =
  auth_token :: "string option"
  current_user :: "user_profile option"
  workspaces :: "workspace list"
  selected_workspace :: "workspace option"
  tasks :: "task list"
  current_task :: "task option"
  notifications :: "notification list"
  user_preferences :: user_preferences
  socket :: "client_socket option"
  socket_connected :: bool

subsection \<open>Setters\<close>

definition set_tasks :: "task list \<Rightarrow> app_state \<Rightarrow> app_state" where
  "set_tasks ts s = s\<lparr>tasks := ts\<rparr>"

definition set_current_task :: "task option \<Rightarrow> app_state \<Rightarrow> app_state" where
  "set_current_task t s = s\<lparr>current_task := t\<rparr>"

definition set_notifications :: "notification list \<Rightarrow> app_state \<Rightarrow> app_state" where
  "set_notifications ns s = s\<lparr>notifications := ns\<rparr>"

subsection \<open>Handlers for socket events\<close>

text \<open>\<^verbatim>\<open>Array.prototype.findIndex\<close>: the first index whose element satisfies the
  predicate; \<open>None\<close> stands for the \<^verbatim>\<open>-1\<close> of JavaScript.\<close>

fun findIndex :: "('a \<Rightarrow> bool) \<Rightarrow> 'a list \<Rightarrow> nat option" where
  "findIndex p [] = None"
| "findIndex p (x # xs) = (if p x then Some 0 else map_option Suc (findIndex p xs))"

definition handle_notification_update :: "notification \<Rightarrow> app_state \<Rightarrow> app_state" where
  "handle_notification_update payload s =
     (case findIndex (\<lambda>n. notification_id n = notification_id payload) (notifications s) of
        Some index \<Rightarrow> set_notifications ((notifications s)[index := payload]) s
      | None \<Rightarrow> set_notifications (notifications s @ [payload]) s)"

text \<open>The appended element is the payload object itself; the store's type sees its
  \<^verbatim>\<open>Comment\<close> fields.\<close>

definition handle_comment_created :: "comment_created_payload \<Rightarrow> app_state \<Rightarrow> app_state" where
  "handle_comment_created payload s =
     (case current_task s of
        None \<Rightarrow> s
      | Some ct \<Rightarrow>
          if task.task_id ct \<noteq> comment_created_payload.task_id payload then s
          else set_current_task
                 (Some (ct\<lparr>comments := comments ct @ [comment.truncate payload]\<rparr>)) s)"

definition handle_task_status_updated ::
    "task_status_updated_payload \<Rightarrow> app_state \<Rightarrow> app_state" where
  "handle_task_status_updated payload s =
     (let s1 =
        (case findIndex (\<lambda>t. task.task_id t = task_status_updated_payload.task_id payload)
                (tasks s) of
           Some index \<Rightarrow>
             set_tasks ((tasks s)[index := (tasks s ! index)
                 \<lparr>task.status := task_status_updated_payload.status payload,
                  task.updated_at := task_status_updated_payload.timestamp payload\<rparr>]) s
         | None \<Rightarrow> s)
      in case current_task s1 of
           None \<Rightarrow> s1
         | Some ct \<Rightarrow>
             if task.task_id ct = task_status_updated_payload.task_id payload
             then set_current_task
                    (Some (ct\<lparr>task.status := task_status_updated_payload.status payload,
                              task.updated_at := task_status_updated_payload.timestamp payload\<rparr>)) s1
             else s1)"

definition handle_task_reordered :: "json \<Rightarrow> app_state \<Rightarrow> app_state" where
  "handle_task_reordered payload s = s"

definition handle_activity_stream :: "activity \<Rightarrow> app_state \<Rightarrow> app_state" where
  "handle_activity_stream payload s = s"

subsection \<open>Listeners registered by \<^verbatim>\<open>init_socket\<close>\<close>

datatype incoming =
    Connect
  | Disconnect
  | Notification_update notification
  | Comment_created comment_created_payload
  | Task_status_updated task_status_updated_payload
  | Task_reorder json
  | Activity_stream activity

fun listener_name :: "incoming \<Rightarrow> string" where
  "listener_name Connect = ''connect''"
| "listener_name Disconnect = ''disconnect''"
| "listener_name (Notification_update p) = ''notification_update''"
| "listener_name (Comment_created p) = ''comment_created''"
| "listener_name (Task_status_updated p) = ''task_status_updated''"
| "listener_name (Task_reorder p) = ''task_reorder''"
| "listener_name (Activity_stream p) = ''activity/stream''"

definition registered_listeners :: "string list" where
  "registered_listeners =
     [''connect'', ''disconnect'', ''notification_update'', ''comment_created'',
      ''task_status_updated'', ''task_reorder'', ''activity/stream'']"

fun on_incoming :: "incoming \<Rightarrow> app_state \<Rightarrow> app_state" where
  "on_incoming Connect s = s\<lparr>socket_connected := True\<rparr>"
| "on_incoming Disconnect s = s\<lparr>socket_connected := False\<rparr>"
| "on_incoming (Notification_update p) s = handle_notification_update p s"
| "on_incoming (Comment_created p) s = handle_comment_created p s"
| "on_incoming (Task_status_updated p) s = handle_task_status_updated p s"
| "on_incoming (Task_reorder p) s = handle_task_reordered p s"
| "on_incoming (Activity_stream p) s = handle_activity_stream p s"

section \<open>Server: socket sessions and event broadcast\<close>

text \<open>The claims of a verified token, \<^verbatim>\<open>{ user_id, role, email, name }\<close>.\<close>

record jwt_user =
  user_id :: string
  role :: string
  email :: string
  name :: string

text \<open>
  A server-side socket: its id, the credential of its handshake
  (\<^verbatim>\<open>socket.handshake.auth.token\<close>, absent as \<open>None\<close>), \<^verbatim>\<open>socket.data.user\<close>, the rooms
  it is in, and whether it is still connected.  socket.io puts every socket in the room
  named by its own id when it connects, \<^verbatim>\<open>socket.join\<close> adds a room, and
  \<^verbatim>\<open>socket.disconnect\<close> takes the socket out of all its rooms.
\<close>

record server_socket =
  socket_id :: string
  handshake_auth_token :: "string option"
  data_user :: "jwt_user option"
  rooms :: "string list"
  connected :: bool

text \<open>
  The socket.io server: the connected sockets, the calls of \<^verbatim>\<open>emit\<close> made so far
  (channel and message) and the deliveries they caused (socket id, event name, message).
\<close>

record io_server =
  sockets :: "server_socket list"
  emitted :: "(string \<times> json) list"
  delivered :: "(string \<times> string \<times> json) list"

definition io_empty :: io_server where
  "io_empty = \<lparr>sockets = [], emitted = [], delivered = []\<rparr>"

text \<open>The sockets reached by \<^verbatim>\<open>io.of('/').to(channel)\<close>.\<close>

definition recipients :: "io_server \<Rightarrow> string \<Rightarrow> server_socket list" where
  "recipients io channel =
     filter (\<lambda>s. connected s \<and> channel \<in> set (rooms s)) (sockets io)"

definition broadcastEvent :: "string \<Rightarrow> json \<Rightarrow> io_server \<Rightarrow> io_server" where
  "broadcastEvent channel msg io =
     io\<lparr>emitted := emitted io @ [(channel, msg)],
        delivered := delivered io @
          map (\<lambda>s. (socket_id s, channel, msg)) (recipients io channel)\<rparr>"

definition socket_disconnect :: "server_socket \<Rightarrow> server_socket" where
  "socket_disconnect s = s\<lparr>rooms := [], connected := False\<rparr>"

definition socket_join :: "string \<Rightarrow> server_socket \<Rightarrow> server_socket" where
  "socket_join room s = s\<lparr>rooms := List.insert room (rooms s)\<rparr>"

text \<open>
  The \<^verbatim>\<open>io.on('connection', ...)\<close> callback.  \<open>jwt_verify\<close> is the authentication
  collaborator \<^verbatim>\<open>jwt.verify(token, JWT_SECRET, ...)\<close>: \<open>None\<close> is its error.
  The test \<^verbatim>\<open>!token\<close> holds for a missing and for an empty token.
\<close>

definition on_connection ::
    "(string \<Rightarrow> jwt_user option) \<Rightarrow> server_socket \<Rightarrow> server_socket" where
  "on_connection jwt_verify sock =
     (case handshake_auth_token sock of
        None \<Rightarrow> socket_disconnect sock
      | Some token \<Rightarrow>
          if token = [] then socket_disconnect sock
          else (case jwt_verify token of
                  None \<Rightarrow> socket_disconnect sock
                | Some user \<Rightarrow>
                    socket_join (''user_'' @ jwt_user.user_id user)
                      (sock\<lparr>data_user := Some user\<rparr>)))"

definition new_socket :: "string \<Rightarrow> string option \<Rightarrow> server_socket" where
  "new_socket sid token =
     \<lparr>socket_id = sid, handshake_auth_token = token, data_user = None, rooms = [sid],
      connected = True\<rparr>"

text \<open>A client connects: the callback runs on the fresh socket, and a socket that the
  callback disconnected is released.\<close>

definition connection ::
    "(string \<Rightarrow> jwt_user option) \<Rightarrow> string \<times> string option \<Rightarrow> io_server \<Rightarrow> io_server" where
  "connection jwt_verify c io =
     (let s = on_connection jwt_verify (new_socket (fst c) (snd c))
      in if connected s then io\<lparr>sockets := sockets io @ [s]\<rparr> else io)"

fun connections ::
    "(string \<Rightarrow> jwt_user option) \<Rightarrow> (string \<times> string option) list \<Rightarrow> io_server \<Rightarrow> io_server" where
  "connections jwt_verify [] io = io"
| "connections jwt_verify (c # cs) io = connections jwt_verify cs (connection jwt_verify c io)"

text \<open>A session as the callback leaves it after a successful verification: connected,
  carrying the verified user, and in two rooms, its own and that user's.\<close>

definition verified_session :: "(string \<Rightarrow> jwt_user option) \<Rightarrow> server_socket \<Rightarrow> bool" where
  "verified_session jwt_verify s \<longleftrightarrow>
     connected s \<and>
     (case handshake_auth_token s of
        None \<Rightarrow> False
      | Some t \<Rightarrow>
          (case jwt_verify t of
             None \<Rightarrow> False
           | Some u \<Rightarrow>
               data_user s = Some u \<and>
               rooms s = List.insert (''user_'' @ jwt_user.user_id u) [socket_id s]))"

text \<open>The broadcast helpers; \<open>now\<close> is \<^verbatim>\<open>new Date().toISOString()\<close>.\<close>

definition broadcastTaskStatusUpdate ::
    "string \<Rightarrow> string \<Rightarrow> string \<Rightarrow> io_server \<Rightarrow> io_server" where
  "broadcastTaskStatusUpdate now tid new_status io =
     broadcastEvent ''task/status/updated''
       (JObj [(''task_id'', JStr tid), (''new_status'', JStr new_status),
              (''timestamp'', JStr now)]) io"

definition broadcastCommentCreated :: "json \<Rightarrow> io_server \<Rightarrow> io_server" where
  "broadcastCommentCreated c io = broadcastEvent ''task/comment/new'' c io"

definition broadcastAttachmentUploaded :: "json \<Rightarrow> io_server \<Rightarrow> io_server" where
  "broadcastAttachmentUploaded a io =
     broadcastEvent ''task/attachment/uploaded'' a io"

definition broadcastTaskReordered :: "json \<Rightarrow> io_server \<Rightarrow> io_server" where
  "broadcastTaskReordered reorderData io = broadcastEvent ''task/reorder'' reorderData io"

definition broadcastActivityStream :: "json \<Rightarrow> io_server \<Rightarrow> io_server" where
  "broadcastActivityStream a io = broadcastEvent ''activity/stream'' a io"

text \<open>
  Following the spec's words (addressing rule of the Event Distributor): the audience of a
  task-scoped event is the set of sessions subscribed to the task's workspace.  The server
  keeps no subscription set, so the relation between session ids and workspace ids is an
  argument.
\<close>

definition spec_workspace_audience ::
    "(string \<times> string) list \<Rightarrow> string \<Rightarrow> io_server \<Rightarrow> server_socket list" where
  "spec_workspace_audience subscriptions workspace io =
     filter (\<lambda>s. (socket_id s, workspace) \<in> set subscriptions) (sockets io)"

section \<open>Server: durable state and the mutation endpoints\<close>

subsection \<open>Tables\<close>

text \<open>
  The storage collaborator is modelled as in-memory tables holding the columns the
  endpoints read and write.  A statement is applied at once (the endpoints below open no
  transaction).  Two statements can be refused by the store, and what the store accepts
  is an argument of the endpoints: an \<^verbatim>\<open>UPDATE\<close> of \<^verbatim>\<open>tasks\<close> is refused when
  the new row violates the row constraint \<open>tasks_check\<close>, and the \<^verbatim>\<open>INSERT\<close> into
  \<^verbatim>\<open>task_activity\<close> is refused when \<open>activity_check\<close> does not accept the row.
  A refused statement throws, changes nothing, and the endpoint's \<^verbatim>\<open>catch\<close> answers 500.
\<close>

record task_row =
  id :: string
  workspace_id :: string
  created_by :: string
  assigned_to :: "string option"
  title :: string
  description :: "string option"
  due_date :: "string option"
  priority :: string
  status :: string
  created_at :: string
  updated_at :: string

record workspace_row =
  id :: string
  name :: string
  owner_id :: string

record workspace_user_row =
  workspace_id :: string
  user_id :: string
  role :: string

record comment_row =
  id :: nat
  task_id :: string
  user_id :: string
  content :: string
  mentions :: "string list"
  created_at :: string
  updated_at :: string

record task_activity_row =
  task_id :: string
  user_id :: string
  action :: string
  description :: string
  timestamp :: string

record db =
  tasks :: "task_row list"
  workspaces :: "workspace_row list"
  workspace_users :: "workspace_user_row list"
  task_tags :: "(string \<times> string) list"
  comments :: "comment_row list"
  task_activity :: "task_activity_row list"

text \<open>What an endpoint can reach: the pool and the socket.io server.\<close>

record world =
  pool :: db
  io :: io_server

text \<open>The \<^verbatim>\<open>CHECK\<close> constraints of the schema file on \<^verbatim>\<open>tasks.priority\<close> and
  \<^verbatim>\<open>tasks.status\<close>.\<close>

definition schema_tasks_check :: "task_row \<Rightarrow> bool" where
  "schema_tasks_check r \<longleftrightarrow>
     task_row.priority r \<in> set [''Low'', ''Medium'', ''High''] \<and>
     task_row.status r \<in> set [''Pending'', ''In Progress'', ''Completed'', ''On Hold'', ''Cancelled'']"

text \<open>
  The \<^verbatim>\<open>task_activity\<close> table of the schema file has the columns \<^verbatim>\<open>id\<close>,
  \<^verbatim>\<open>task_id\<close>, \<^verbatim>\<open>user_id\<close>, \<^verbatim>\<open>action\<close>, \<^verbatim>\<open>timestamp\<close> and \<^verbatim>\<open>details\<close>.
  The status endpoint's \<^verbatim>\<open>INSERT\<close> names a column \<^verbatim>\<open>description\<close>, which that table
  does not have, so a store built from the schema file refuses it for every row.
\<close>

definition schema_task_activity_check :: "task_activity_row \<Rightarrow> bool" where
  "schema_task_activity_check r \<longleftrightarrow> False"

subsection \<open>Responses\<close>

text \<open>
  An answer is its status code and its JSON body.  The answers of the \<^verbatim>\<open>catch\<close> blocks
  carry, beside \<^verbatim>\<open>message\<close>, the store's own error text under the key \<^verbatim>\<open>error\<close>;
  that text is the store's and is left out of the body here.
\<close>

record response =
  status_code :: nat
  body :: json

definition res_json :: "json \<Rightarrow> response" where
  "res_json b = \<lparr>status_code = 200, body = b\<rparr>"

definition res_status_json :: "nat \<Rightarrow> json \<Rightarrow> response" where
  "res_status_json code b = \<lparr>status_code = code, body = b\<rparr>"

definition message_body :: "string \<Rightarrow> json" where
  "message_body m = JObj [(''message'', JStr m)]"

subsection \<open>Queries shared by the endpoints\<close>

definition select_task :: "string \<Rightarrow> db \<Rightarrow> task_row list" where
  "select_task tid d = filter (\<lambda>t. task_row.id t = tid) (db.tasks d)"

definition select_access :: "string \<Rightarrow> string \<Rightarrow> db \<Rightarrow> workspace_user_row list" where
  "select_access wid uid d =
     filter (\<lambda>r. workspace_user_row.workspace_id r = wid \<and> workspace_user_row.user_id r = uid)
       (workspace_users d)"

definition select_owner :: "string \<Rightarrow> db \<Rightarrow> workspace_row list" where
  "select_owner wid d = filter (\<lambda>r. workspace_row.id r = wid) (db.workspaces d)"

subsection \<open>POST /tasks/:task_id/status\<close>

definition validStatuses :: "string list" where
  "validStatuses = [''Pending'', ''In Progress'', ''Completed'', ''On Hold'', ''Cancelled'']"

definition update_task_status :: "string \<Rightarrow> string \<Rightarrow> string \<Rightarrow> task_row list \<Rightarrow> task_row list" where
  "update_task_status now st tid rows =
     map (\<lambda>t. if task_row.id t = tid
               then t\<lparr>task_row.status := st, task_row.updated_at := now\<rparr> else t) rows"

text \<open>
  The caller \<open>user\<close> is the \<^verbatim>\<open>req.user\<close> that \<^verbatim>\<open>authenticateToken\<close> stored; the request
  body's \<^verbatim>\<open>status\<close> is \<open>None\<close> when it is absent.  \<open>now\<close> is the clock.  The
  \<^verbatim>\<open>UPDATE\<close> and the \<^verbatim>\<open>INSERT\<close> are two statements outside any transaction: when the
  store refuses the second, the first stays written and the answer is 500.
\<close>

definition post_task_status ::
    "(task_row \<Rightarrow> bool) \<Rightarrow> (task_activity_row \<Rightarrow> bool) \<Rightarrow> string \<Rightarrow> jwt_user \<Rightarrow> string
      \<Rightarrow> string option \<Rightarrow> world \<Rightarrow> response \<times> world" where
  "post_task_status tasks_check activity_check now user tid st w =
     (case (case st of None \<Rightarrow> None
                     | Some v \<Rightarrow> if v \<in> set validStatuses then Some v else None) of
        None \<Rightarrow> (res_status_json 400 (message_body ''Invalid status''), w)
      | Some v \<Rightarrow>
        (case select_task tid (pool w) of
           [] \<Rightarrow> (res_status_json 404 (message_body ''Task not found''), w)
         | t # _ \<Rightarrow>
            (let accessRes = select_access (task_row.workspace_id t) (jwt_user.user_id user) (pool w);
                 wsOwnerRes = select_owner (task_row.workspace_id t) (pool w)
             in if jwt_user.role user \<noteq> ''Admin'' \<and>
                   (accessRes = [] \<or>
                    (case wsOwnerRes of
                       [] \<Rightarrow> True
                     | r # _ \<Rightarrow> workspace_row.owner_id r \<noteq> jwt_user.user_id user))
                then (res_status_json 403 (message_body ''Forbidden''), w)
                else
                  (let updated = update_task_status now v tid (db.tasks (pool w))
                   in if \<not> list_all tasks_check (filter (\<lambda>r. task_row.id r = tid) updated)
                      then (res_status_json 500 (message_body ''Error changing status''), w)
                      else
                        (let d1 = (pool w)\<lparr>db.tasks := updated\<rparr>;
                             entry = \<lparr>task_id = tid, user_id = jwt_user.user_id user,
                                      action = ''status_changed'',
                                      description = ''Status changed to '' @ v,
                                      timestamp = now\<rparr>
                         in if \<not> activity_check entry
                            then (res_status_json 500 (message_body ''Error changing status''),
                                  w\<lparr>pool := d1\<rparr>)
                            else
                              (res_json (JObj [(''task_id'', JStr tid), (''status'', JStr v),
                                               (''updated_at'', JStr now)]),
                               w\<lparr>pool := d1\<lparr>task_activity := task_activity d1 @ [entry]\<rparr>\<rparr>))))))"

subsection \<open>POST /tasks/:task_id/comments\<close>

text \<open>
  The test reads \<^verbatim>\<open>wsOwnerRes.rows[0].owner_id\<close> only when the caller is neither Admin
  nor a member; on an empty result that read throws and the \<^verbatim>\<open>catch\<close> answers 500.
  The new row's id comes from the table's sequence.  After the insert the endpoint answers;
  it calls no broadcast helper.
\<close>

definition next_comment_id :: "comment_row list \<Rightarrow> nat" where
  "next_comment_id rows = Suc (fold max (map comment_row.id rows) 0)"

definition post_task_comment ::
    "string \<Rightarrow> jwt_user \<Rightarrow> string \<Rightarrow> string \<Rightarrow> string list option \<Rightarrow> world
      \<Rightarrow> response \<times> world" where
  "post_task_comment now user tid content_text mentioned w =
     (case select_task tid (pool w) of
        [] \<Rightarrow> (res_status_json 404 (message_body ''Task not found''), w)
      | t # _ \<Rightarrow>
         (let accessRes = select_access (task_row.workspace_id t) (jwt_user.user_id user) (pool w);
              wsOwnerRes = select_owner (task_row.workspace_id t) (pool w);
              mentionsJson = (case mentioned of None \<Rightarrow> [] | Some ms \<Rightarrow> ms);
              new_id = next_comment_id (db.comments (pool w));
              inserted = (pool w)\<lparr>db.comments := db.comments (pool w) @
                  [\<lparr>id = new_id, task_id = tid, user_id = jwt_user.user_id user,
                    content = content_text, mentions = mentionsJson,
                    created_at = now, updated_at = now\<rparr>]\<rparr>;
              success =
                (res_json (JObj [(''comment_id'', JNum (int new_id)), (''task_id'', JStr tid),
                                 (''author_id'', JStr (jwt_user.user_id user)),
                                 (''content'', JStr content_text),
                                 (''mentions'', JArr (map JStr mentionsJson)),
                                 (''created_at'', JStr now), (''updated_at'', JStr now)]),
                 w\<lparr>pool := inserted\<rparr>)
          in if jwt_user.role user \<noteq> ''Admin'' \<and> accessRes = []
             then (case wsOwnerRes of
                     [] \<Rightarrow> (res_status_json 500 (message_body ''Error adding comment''), w)
                   | r # _ \<Rightarrow>
                       if workspace_row.owner_id r \<noteq> jwt_user.user_id user
                       then (res_status_json 403 (message_body ''Access denied''), w)
                       else success)
             else success))"

subsection \<open>PUT /tasks/:task_id\<close>

text \<open>A field of the body is \<open>None\<close> when it is \<^verbatim>\<open>undefined\<close>, and a string when
  it is present.\<close>

record put_task_body =
  title :: "string option"
  description :: "string option"
  due_date :: "string option"
  priority :: "string option"
  status :: "string option"
  assigned_to :: "string option"
  tags :: "string list option"
  is_favorited :: "bool option"

definition task_row_json :: "task_row \<Rightarrow> json" where
  "task_row_json r =
     (let opt = (\<lambda>v. case v of None \<Rightarrow> JNull | Some x \<Rightarrow> JStr x)
      in JObj [(''id'', JStr (task_row.id r)),
               (''workspace_id'', JStr (task_row.workspace_id r)),
               (''created_by'', JStr (task_row.created_by r)),
               (''assigned_to'', opt (task_row.assigned_to r)),
               (''title'', JStr (task_row.title r)),
               (''description'', opt (task_row.description r)),
               (''due_date'', opt (task_row.due_date r)),
               (''priority'', JStr (task_row.priority r)),
               (''status'', JStr (task_row.status r)),
               (''created_at'', JStr (task_row.created_at r)),
               (''updated_at'', JStr (task_row.updated_at r))])"

text \<open>The \<^verbatim>\<open>SET\<close> list built from the defined fields; \<open>date_parses\<close> stands for
  \<^verbatim>\<open>!isNaN(Date.parse(due_date))\<close>.\<close>

definition put_task_fields ::
    "(string \<Rightarrow> bool) \<Rightarrow> string \<Rightarrow> put_task_body \<Rightarrow> task_row \<Rightarrow> task_row" where
  "put_task_fields date_parses now b r =
     r\<lparr>task_row.title := (case put_task_body.title b of None \<Rightarrow> task_row.title r | Some v \<Rightarrow> v),
       task_row.description :=
         (case put_task_body.description b of None \<Rightarrow> task_row.description r | Some v \<Rightarrow> Some v),
       task_row.due_date :=
         (case put_task_body.due_date b of
            None \<Rightarrow> task_row.due_date r
          | Some v \<Rightarrow> if v \<noteq> [] \<and> date_parses v then Some v else None),
       task_row.priority :=
         (case put_task_body.priority b of None \<Rightarrow> task_row.priority r | Some v \<Rightarrow> v),
       task_row.status :=
         (case put_task_body.status b of None \<Rightarrow> task_row.status r | Some v \<Rightarrow> v),
       task_row.assigned_to :=
         (case put_task_body.assigned_to b of None \<Rightarrow> task_row.assigned_to r | Some v \<Rightarrow> Some v),
       task_row.updated_at := now\<rparr>"

fun insert_tags :: "string \<Rightarrow> string list \<Rightarrow> (string \<times> string) list \<Rightarrow> (string \<times> string) list" where
  "insert_tags tid [] tbl = tbl"
| "insert_tags tid (tag # rest) tbl =
     insert_tags tid rest (if (tid, tag) \<in> set tbl then tbl else tbl @ [(tid, tag)])"

definition put_task ::
    "(task_row \<Rightarrow> bool) \<Rightarrow> (string \<Rightarrow> bool) \<Rightarrow> string \<Rightarrow> jwt_user \<Rightarrow> string \<Rightarrow> put_task_body
      \<Rightarrow> world \<Rightarrow> response \<times> world" where
  "put_task tasks_check date_parses now user tid b w =
     (case select_task tid (pool w) of
        [] \<Rightarrow> (res_status_json 404 (message_body ''Task not found''), w)
      | t # _ \<Rightarrow>
         (let accessRes = select_access (task_row.workspace_id t) (jwt_user.user_id user) (pool w);
              wsOwnerRes = select_owner (task_row.workspace_id t) (pool w)
          in if accessRes = [] \<and>
                (case wsOwnerRes of
                   [] \<Rightarrow> True
                 | r # _ \<Rightarrow> workspace_row.owner_id r \<noteq> jwt_user.user_id user)
             then (res_status_json 403 (message_body ''Access denied''), w)
             else
               (let updated = map (\<lambda>r. if task_row.id r = tid
                                         then put_task_fields date_parses now b r else r)
                                (db.tasks (pool w))
                in if \<not> list_all tasks_check (filter (\<lambda>r. task_row.id r = tid) updated)
                   then (res_status_json 500 (message_body ''Error updating task''), w)
                   else
                     (let d1 = (pool w)\<lparr>db.tasks := updated\<rparr>;
                          d2 = (case put_task_body.tags b of
                                  None \<Rightarrow> d1
                                | Some tgs \<Rightarrow>
                                    d1\<lparr>task_tags :=
                                         insert_tags tid tgs
                                           (filter (\<lambda>p. fst p \<noteq> tid) (task_tags d1))\<rparr>)
                      in (case select_task tid d2 of
                            [] \<Rightarrow> (res_json JNull, w\<lparr>pool := d2\<rparr>)
                          | r # _ \<Rightarrow> (res_json (task_row_json r), w\<lparr>pool := d2\<rparr>))))))"

section \<open>Example data\<close>

text \<open>The users, workspaces and first task of the seed data, and a client store that
  has the task open.\<close>

definition alice :: jwt_user where
  "alice =
     \<lparr>jwt_user.user_id = ''user1'', jwt_user.role = ''Admin'',
      jwt_user.email = ''alice@example.com'', jwt_user.name = ''Alice Smith''\<rparr>"

definition bob :: jwt_user where
  "bob =
     \<lparr>jwt_user.user_id = ''user2'', jwt_user.role = ''Team Member'',
      jwt_user.email = ''bob@example.com'', jwt_user.name = ''Bob Johnson''\<rparr>"

definition dave :: jwt_user where
  "dave =
     \<lparr>jwt_user.user_id = ''user4'', jwt_user.role = ''Team Member'',
      jwt_user.email = ''dave@example.com'', jwt_user.name = ''Dave Brown''\<rparr>"

definition seed_verify :: "string \<Rightarrow> jwt_user option" where
  "seed_verify token =
     (if token = ''token-alice'' then Some alice
      else if token = ''token-bob'' then Some bob
      else if token = ''token-dave'' then Some dave
      else None)"

definition seed_task1 :: task_row where
  "seed_task1 =
     \<lparr>task_row.id = ''task1'', task_row.workspace_id = ''workspace1'',
      task_row.created_by = ''user1'', task_row.assigned_to = Some ''user2'',
      task_row.title = ''Design UI mockups'',
      task_row.description = Some ''Create initial UI mockups for the app'',
      task_row.due_date = None, task_row.priority = ''High'',
      task_row.status = ''In Progress'',
      task_row.created_at = ''2024-01-01T00:00:00.000Z'',
      task_row.updated_at = ''2024-01-01T00:00:00.000Z''\<rparr>"

definition seed_db :: db where
  "seed_db =
     \<lparr>db.tasks = [seed_task1],
      db.workspaces =
        [\<lparr>workspace_row.id = ''workspace1'', workspace_row.name = ''Project Alpha'',
          workspace_row.owner_id = ''user1''\<rparr>,
         \<lparr>workspace_row.id = ''workspace2'', workspace_row.name = ''Team Beta'',
          workspace_row.owner_id = ''user5''\<rparr>],
      db.workspace_users =
        [\<lparr>workspace_user_row.workspace_id = ''workspace1'',
          workspace_user_row.user_id = ''user1'', workspace_user_row.role = ''Admin''\<rparr>,
         \<lparr>workspace_user_row.workspace_id = ''workspace1'',
          workspace_user_row.user_id = ''user2'', workspace_user_row.role = ''Team Member''\<rparr>,
         \<lparr>workspace_user_row.workspace_id = ''workspace1'',
          workspace_user_row.user_id = ''user3'', workspace_user_row.role = ''Viewer''\<rparr>,
         \<lparr>workspace_user_row.workspace_id = ''workspace2'',
          workspace_user_row.user_id = ''user5'', workspace_user_row.role = ''Admin''\<rparr>,
         \<lparr>workspace_user_row.workspace_id = ''workspace2'',
          workspace_user_row.user_id = ''user4'', workspace_user_row.role = ''Team Member''\<rparr>],
      db.task_tags = [(''task1'', ''UI''), (''task1'', ''Design'')],
      db.comments = [],
      db.task_activity = []\<rparr>"

text \<open>Bob has a verified socket session open.\<close>

definition seed_io :: io_server where
  "seed_io = connection seed_verify (''socket-bob'', Some ''token-bob'') io_empty"

definition seed_world :: world where
  "seed_world = \<lparr>pool = seed_db, io = seed_io\<rparr>"

definition status_only :: "string \<Rightarrow> put_task_body" where
  "status_only v =
     \<lparr>put_task_body.title = None, put_task_body.description = None,
      put_task_body.due_date = None, put_task_body.priority = None,
      put_task_body.status = Some v, put_task_body.assigned_to = None,
      put_task_body.tags = None, put_task_body.is_favorited = None\<rparr>"

definition comment_c1 :: comment where
  "comment_c1 =
     \<lparr>comment.comment_id = ''c1'', comment.author_id = ''user2'',
      comment.content = ''Please review the mockups.'',
      comment.created_at = ''2024-01-02T00:00:00.000Z'',
      comment.updated_at = ''2024-01-02T00:00:00.000Z'',
      comment.mentions = [], comment.user_name = None\<rparr>"

text \<open>The event for that same comment on task1.\<close>

definition comment_c1_event :: comment_created_payload where
  "comment_c1_event = comment.extend comment_c1 (comment_created_payload.fields ''task1'')"

definition client_task1 :: task where
  "client_task1 =
     \<lparr>task.task_id = ''task1'', task.workspace_id = ''workspace1'',
      task.created_by = ''user1'', task.assigned_to = Some ''user2'',
      task.title = ''Design UI mockups'', task.description = None,
      task.due_date = None, task.priority = ''High'', task.status = ''Completed'',
      task.is_favorited = False,
      task.created_at = ''2024-01-01T00:00:00.000Z'',
      task.updated_at = ''2024-01-02T00:00:00.000Z'',
      task.tags = [''UI'', ''Design''], task.comments = [comment_c1],
      task.attachments = [], task.activity_log = []\<rparr>"

definition client_store :: app_state where
  "client_store =
     \<lparr>auth_token = Some ''token-bob'', current_user = None, app_state.workspaces = [],
      selected_workspace = None, app_state.tasks = [client_task1],
      current_task = Some client_task1, notifications = [],
      user_preferences = \<lparr>theme = Light, notifications_enabled = True, language = ''en''\<rparr>,
      socket = None, socket_connected = False\<rparr>"

text \<open>A status event stamped a day before the cached task's \<^verbatim>\<open>updated_at\<close>, and one
  stamped a day after it.\<close>

definition stale_status_event :: task_status_updated_payload where
  "stale_status_event =
     \<lparr>task_status_updated_payload.task_id = ''task1'',
      task_status_updated_payload.status = ''Pending'',
      task_status_updated_payload.timestamp = ''2024-01-01T00:00:00.000Z''\<rparr>"

definition fresh_status_event :: task_status_updated_payload where
  "fresh_status_event =
     \<lparr>task_status_updated_payload.task_id = ''task1'',
      task_status_updated_payload.status = ''On Hold'',
      task_status_updated_payload.timestamp = ''2024-01-03T00:00:00.000Z''\<rparr>"

section \<open>Properties of the client store\<close>

lemmas client_fixture_defs =
  client_store_def client_task1_def comment_c1_def comment_c1_event_def
  stale_status_event_def fresh_status_event_def

lemmas client_handler_defs =
  handle_comment_created_def handle_task_status_updated_def handle_notification_update_def
  set_current_task_def set_tasks_def set_notifications_def

subsection \<open>\<open>findIndex\<close>\<close>

lemma findIndex_Some:
  "findIndex p xs = Some i \<Longrightarrow> i < length xs \<and> p (xs ! i)"
  by (induction xs arbitrary: i) (auto split: if_splits)

lemma findIndex_update:
  "findIndex p xs = Some i \<Longrightarrow> p y \<Longrightarrow> findIndex p (xs[i := y]) = Some i"
  by (induction xs arbitrary: i) (auto split: if_splits)

lemma findIndex_append_None:
  "findIndex p xs = None \<Longrightarrow> p y \<Longrightarrow> findIndex p (xs @ [y]) = Some (length xs)"
  by (induction xs) (auto split: if_splits)

subsection \<open>Applying an event twice\<close>

text \<open>The notification handler replaces or appends by \<^verbatim>\<open>notification_id\<close>, so a second
  application finds the entry the first one wrote and writes it again.\<close>

lemma handle_notification_update_twice:
  "handle_notification_update p (handle_notification_update p s)
     = handle_notification_update p s"
proof (cases "findIndex (\<lambda>n. notification_id n = notification_id p) (notifications s)")
  case None
  then show ?thesis
    by (simp add: handle_notification_update_def set_notifications_def findIndex_append_None)
next
  case (Some i)
  then show ?thesis
    by (simp add: handle_notification_update_def set_notifications_def findIndex_update)
qed

text \<open>The status handler overwrites two fields of the task it finds by \<^verbatim>\<open>task_id\<close>.\<close>

lemma handle_task_status_updated_twice:
  "handle_task_status_updated p (handle_task_status_updated p s)
     = handle_task_status_updated p s"
proof (cases "findIndex (\<lambda>t. task.task_id t = task_status_updated_payload.task_id p)
                (app_state.tasks s)")
  case None
  then show ?thesis
    by (cases "current_task s") (simp_all add: client_handler_defs Let_def)
next
  case (Some i)
  then show ?thesis
    using findIndex_Some [OF Some]
    by (cases "current_task s") (simp_all add: client_handler_defs findIndex_update Let_def)
qed

text \<open>The comment handler appends whenever the open task is the event's task.\<close>

lemma handle_comment_created_appends:
  "current_task s = Some ct \<Longrightarrow> task.task_id ct = comment_created_payload.task_id p \<Longrightarrow>
   current_task (handle_comment_created p s)
     = Some (ct\<lparr>task.comments := task.comments ct @ [comment.truncate p]\<rparr>)"
  by (simp add: handle_comment_created_def set_current_task_def)

text \<open>
  C3.  The claim: applying the handler of a notification, comment or status event twice
  gives the same store as applying it once.  It holds for the notification and the status
  handler (the two lemmas above) and fails for the comment handler: on the example store,
  whose open task is task1, a second \<^verbatim>\<open>comment_created\<close> event for task1 appends the
  comment again, so the store after two applications differs from the store after one.
\<close>

theorem comment_created_twice_differs:
  "on_incoming (Comment_created comment_c1_event)
     (on_incoming (Comment_created comment_c1_event) client_store)
   \<noteq> on_incoming (Comment_created comment_c1_event) client_store"
  by (simp add: client_fixture_defs client_handler_defs comment.defs
        comment_created_payload.defs)

text \<open>
  C4.  The claim: when the open task already holds a comment with some \<^verbatim>\<open>comment_id\<close>,
  a \<^verbatim>\<open>comment_created\<close> event with that id leaves the comment sequence free of
  duplicates.  On the example store the open task holds comment c1; after the event for
  c1 the sequence of comment ids is c1, c1.
\<close>

theorem echoed_comment_appears_twice:
  "map_option (map comment_id \<circ> task.comments) (current_task client_store) = Some [''c1'']
   \<and> comment.comment_id comment_c1_event = ''c1''
   \<and> map_option (map comment_id \<circ> task.comments)
       (current_task (handle_comment_created comment_c1_event client_store))
     = Some [''c1'', ''c1'']"
  by (simp add: client_fixture_defs client_handler_defs comment.defs
        comment_created_payload.defs)

subsection \<open>Status events and \<^verbatim>\<open>updated_at\<close>\<close>

text \<open>
  C5, as stated, fails: the claim is that a status event whose timestamp is strictly older
  than the cached \<^verbatim>\<open>updated_at\<close> leaves the cached status and \<^verbatim>\<open>updated_at\<close> as they
  are.  The cached task1 is Completed and stamped 2024-01-02; the event stamped 2024-01-01
  sets it to Pending and moves \<^verbatim>\<open>updated_at\<close> back to 2024-01-01.
\<close>

theorem stale_status_event_overwrites:
  "task_status_updated_payload.timestamp stale_status_event < task.updated_at client_task1
   \<and> map task.status (app_state.tasks client_store) = [''Completed'']
   \<and> map task.status
       (app_state.tasks (handle_task_status_updated stale_status_event client_store))
     = [''Pending'']
   \<and> map task.updated_at
       (app_state.tasks (handle_task_status_updated stale_status_event client_store))
     = [''2024-01-01T00:00:00.000Z'']"
  by (simp add: client_fixture_defs client_handler_defs)

text \<open>
  C5, amended: the handler compares no timestamps.  For the first task of the list with
  the event's \<^verbatim>\<open>task_id\<close>, and for the open task when it has that id, applying the event
  sets status and \<^verbatim>\<open>updated_at\<close> to the event's status and timestamp, whatever the cached
  \<^verbatim>\<open>updated_at\<close> was; so \<^verbatim>\<open>updated_at\<close> does not decrease when the event's timestamp is
  not older than the cached one.
\<close>

theorem status_event_overwrites_cached_task:
  "(\<forall>i. findIndex (\<lambda>t. task.task_id t = task_status_updated_payload.task_id p)
          (app_state.tasks s) = Some i
      \<longrightarrow> task.status (app_state.tasks (handle_task_status_updated p s) ! i)
            = task_status_updated_payload.status p
        \<and> task.updated_at (app_state.tasks (handle_task_status_updated p s) ! i)
            = task_status_updated_payload.timestamp p
        \<and> (task.updated_at (app_state.tasks s ! i) \<le> task_status_updated_payload.timestamp p
            \<longrightarrow> task.updated_at (app_state.tasks s ! i)
                \<le> task.updated_at (app_state.tasks (handle_task_status_updated p s) ! i)))
   \<and> (\<forall>ct. current_task s = Some ct
          \<and> task.task_id ct = task_status_updated_payload.task_id p
      \<longrightarrow> current_task (handle_task_status_updated p s)
          = Some (ct\<lparr>task.status := task_status_updated_payload.status p,
                      task.updated_at := task_status_updated_payload.timestamp p\<rparr>))"
proof (intro conjI allI impI)
  fix i
  assume f: "findIndex (\<lambda>t. task.task_id t = task_status_updated_payload.task_id p)
               (app_state.tasks s) = Some i"
  then have len: "i < length (app_state.tasks s)"
    by (simp add: findIndex_Some)
  have written: "app_state.tasks (handle_task_status_updated p s) =
      (app_state.tasks s)[i := (app_state.tasks s ! i)
         \<lparr>task.status := task_status_updated_payload.status p,
          task.updated_at := task_status_updated_payload.timestamp p\<rparr>]"
    using f by (cases "current_task s") (simp_all add: client_handler_defs Let_def)
  show "task.status (app_state.tasks (handle_task_status_updated p s) ! i)
          = task_status_updated_payload.status p"
    using len by (simp add: written)
  show stamp: "task.updated_at (app_state.tasks (handle_task_status_updated p s) ! i)
          = task_status_updated_payload.timestamp p"
    using len by (simp add: written)
  assume "task.updated_at (app_state.tasks s ! i) \<le> task_status_updated_payload.timestamp p"
  then show "task.updated_at (app_state.tasks s ! i)
          \<le> task.updated_at (app_state.tasks (handle_task_status_updated p s) ! i)"
    by (simp add: stamp)
next
  fix ct
  assume "current_task s = Some ct \<and> task.task_id ct = task_status_updated_payload.task_id p"
  then show "current_task (handle_task_status_updated p s)
          = Some (ct\<lparr>task.status := task_status_updated_payload.status p,
                      task.updated_at := task_status_updated_payload.timestamp p\<rparr>)"
    by (cases "findIndex (\<lambda>t. task.task_id t = task_status_updated_payload.task_id p)
                 (app_state.tasks s)")
       (simp_all add: client_handler_defs Let_def)
qed

theorem status_event_overwrites_cached_task_witness:
  "findIndex (\<lambda>t. task.task_id t = task_status_updated_payload.task_id fresh_status_event)
      (app_state.tasks client_store) = Some 0
   \<and> task.updated_at (app_state.tasks client_store ! 0)
       \<le> task_status_updated_payload.timestamp fresh_status_event
   \<and> task.status
        (app_state.tasks (handle_task_status_updated fresh_status_event client_store) ! 0)
       = ''On Hold''
   \<and> task.updated_at (app_state.tasks client_store ! 0)
       \<le> task.updated_at
           (app_state.tasks (handle_task_status_updated fresh_status_event client_store) ! 0)
   \<and> current_task client_store = Some client_task1
   \<and> task.task_id client_task1 = task_status_updated_payload.task_id fresh_status_event
   \<and> map_option task.status
        (current_task (handle_task_status_updated fresh_status_event client_store))
       = Some ''On Hold''"
proof -
  have f: "findIndex
      (\<lambda>t. task.task_id t = task_status_updated_payload.task_id fresh_status_event)
      (app_state.tasks client_store) = Some 0"
    by (simp add: client_fixture_defs)
  have le: "task.updated_at (app_state.tasks client_store ! 0)
       \<le> task_status_updated_payload.timestamp fresh_status_event"
    by (simp add: client_fixture_defs)
  have c: "current_task client_store = Some client_task1
      \<and> task.task_id client_task1 = task_status_updated_payload.task_id fresh_status_event"
    by (simp add: client_fixture_defs)
  note inst = status_event_overwrites_cached_task [of fresh_status_event client_store]
  from inst f le
  have a: "task.status
        (app_state.tasks (handle_task_status_updated fresh_status_event client_store) ! 0)
       = task_status_updated_payload.status fresh_status_event
     \<and> task.updated_at (app_state.tasks client_store ! 0)
       \<le> task.updated_at
           (app_state.tasks (handle_task_status_updated fresh_status_event client_store) ! 0)"
    by blast
  from inst c
  have b: "current_task (handle_task_status_updated fresh_status_event client_store)
      = Some (client_task1
          \<lparr>task.status := task_status_updated_payload.status fresh_status_event,
           task.updated_at := task_status_updated_payload.timestamp fresh_status_event\<rparr>)"
    by blast
  show ?thesis using f le c a b by (simp add: fresh_status_event_def)
qed

subsection \<open>Reorder and activity events\<close>

text \<open>
  C10.  The handlers of \<^verbatim>\<open>task_reorder\<close> and \<^verbatim>\<open>activity/stream\<close> events return the
  store they were given, for every store and every payload, also when reached through the
  registered listeners.
\<close>

theorem reorder_and_activity_leave_store_unchanged:
  "handle_task_reordered payload s = s
   \<and> handle_activity_stream a s = s
   \<and> on_incoming (Task_reorder payload) s = s
   \<and> on_incoming (Activity_stream a) s = s"
  by (simp add: handle_task_reordered_def handle_activity_stream_def)

section \<open>Properties of the socket sessions\<close>

lemmas server_fixture_defs =
  seed_world_def seed_db_def seed_task1_def seed_io_def seed_verify_def
  alice_def bob_def dave_def status_only_def

lemmas socket_defs =
  connection_def on_connection_def new_socket_def socket_join_def socket_disconnect_def
  io_empty_def recipients_def broadcastEvent_def

subsection \<open>The connection callback\<close>

lemma on_connection_connected:
  "connected (on_connection jwt_verify (new_socket sid tok)) \<longleftrightarrow>
     (\<exists>t u. tok = Some t \<and> t \<noteq> [] \<and> jwt_verify t = Some u)"
  by (auto simp add: on_connection_def new_socket_def socket_join_def socket_disconnect_def
        split: option.splits)

lemma on_connection_verified:
  "tok = Some t \<Longrightarrow> t \<noteq> [] \<Longrightarrow> jwt_verify t = Some u \<Longrightarrow>
   on_connection jwt_verify (new_socket sid tok)
     = \<lparr>socket_id = sid, handshake_auth_token = Some t, data_user = Some u,
        rooms = List.insert (''user_'' @ jwt_user.user_id u) [sid], connected = True\<rparr>"
  by (simp add: on_connection_def new_socket_def socket_join_def)

lemma on_connection_refused:
  "tok = None \<or> tok = Some [] \<or> (\<exists>t. tok = Some t \<and> jwt_verify t = None) \<Longrightarrow>
   on_connection jwt_verify (new_socket sid tok)
     = \<lparr>socket_id = sid, handshake_auth_token = tok, data_user = None,
        rooms = [], connected = False\<rparr>"
  by (auto simp add: on_connection_def new_socket_def socket_disconnect_def)

text \<open>
  C9.  A handshake with no credential, an empty one or one that fails verification leaves
  the socket disconnected, in no room and without a user, and the server as it was: the
  same sockets, hence the same recipients for every channel.  Conversely every socket that
  a handshake adds to the server comes from a credential that verified, and carries the
  verified user.
\<close>

theorem unverified_handshake_creates_no_session:
  "(tok = None \<or> tok = Some [] \<or> (\<exists>t. tok = Some t \<and> jwt_verify t = None)
      \<longrightarrow> \<not> connected (on_connection jwt_verify (new_socket sid tok))
          \<and> rooms (on_connection jwt_verify (new_socket sid tok)) = []
          \<and> data_user (on_connection jwt_verify (new_socket sid tok)) = None
          \<and> connection jwt_verify (sid, tok) srv = srv
          \<and> recipients (connection jwt_verify (sid, tok) srv) channel
              = recipients srv channel)
   \<and> (\<forall>s \<in> set (sockets (connection jwt_verify (sid, tok) srv)) - set (sockets srv).
         \<exists>t u. tok = Some t \<and> jwt_verify t = Some u \<and> data_user s = Some u
              \<and> socket_id s = sid)"
proof (intro conjI impI ballI)
  assume bad: "tok = None \<or> tok = Some [] \<or> (\<exists>t. tok = Some t \<and> jwt_verify t = None)"
  note r = on_connection_refused [OF bad, of sid]
  show "\<not> connected (on_connection jwt_verify (new_socket sid tok))" by (simp add: r)
  show "rooms (on_connection jwt_verify (new_socket sid tok)) = []" by (simp add: r)
  show "data_user (on_connection jwt_verify (new_socket sid tok)) = None" by (simp add: r)
  show same: "connection jwt_verify (sid, tok) srv = srv" by (simp add: connection_def r)
  show "recipients (connection jwt_verify (sid, tok) srv) channel = recipients srv channel"
    by (simp add: same)
next
  fix s
  assume "s \<in> set (sockets (connection jwt_verify (sid, tok) srv)) - set (sockets srv)"
  then have new: "s = on_connection jwt_verify (new_socket sid tok)"
    and c: "connected (on_connection jwt_verify (new_socket sid tok))"
    by (auto simp add: connection_def Let_def split: if_splits)
  from c obtain t u where t: "tok = Some t" "t \<noteq> []" "jwt_verify t = Some u"
    by (auto simp add: on_connection_connected)
  have "on_connection jwt_verify (new_socket sid tok)
     = \<lparr>socket_id = sid, handshake_auth_token = Some t, data_user = Some u,
        rooms = List.insert (''user_'' @ jwt_user.user_id u) [sid], connected = True\<rparr>"
    using t by (rule on_connection_verified)
  then show "\<exists>t u. tok = Some t \<and> jwt_verify t = Some u \<and> data_user s = Some u
               \<and> socket_id s = sid"
    using t by (simp add: new)
qed

theorem unverified_handshake_creates_no_session_witness:
  "connection seed_verify (''socket-x'', Some ''forged'') seed_io = seed_io
   \<and> \<not> connected (on_connection seed_verify (new_socket ''socket-x'' (Some ''forged'')))
   \<and> \<lparr>socket_id = ''socket-dave'', handshake_auth_token = Some ''token-dave'',
        data_user = Some dave, rooms = [''user_user4'', ''socket-dave''], connected = True\<rparr>
       \<in> set (sockets (connection seed_verify (''socket-dave'', Some ''token-dave'') seed_io))
           - set (sockets seed_io)
   \<and> seed_verify ''token-dave'' = Some dave"
proof -
  let ?s = "\<lparr>socket_id = ''socket-dave'', handshake_auth_token = Some ''token-dave'',
        data_user = Some dave, rooms = [''user_user4'', ''socket-dave''], connected = True\<rparr>"
  have bad: "Some ''forged'' = None \<or> Some ''forged'' = Some []
      \<or> (\<exists>t. Some ''forged'' = Some t \<and> seed_verify t = None)"
    by (simp add: seed_verify_def)
  from unverified_handshake_creates_no_session
         [of "Some ''forged''" seed_verify "''socket-x''" seed_io "''user_user2''"] bad
  have a: "connection seed_verify (''socket-x'', Some ''forged'') seed_io = seed_io
     \<and> \<not> connected (on_connection seed_verify (new_socket ''socket-x'' (Some ''forged'')))"
    by blast
  have mem: "?s \<in> set (sockets
        (connection seed_verify (''socket-dave'', Some ''token-dave'') seed_io))
           - set (sockets seed_io)"
    by (simp add: seed_io_def seed_verify_def socket_defs dave_def bob_def)
  from unverified_handshake_creates_no_session
         [of "Some ''token-dave''" seed_verify "''socket-dave''" seed_io "''user_user2''"] mem
  have "\<exists>t u. Some ''token-dave'' = Some t \<and> seed_verify t = Some u \<and> data_user ?s = Some u
              \<and> socket_id ?s = ''socket-dave''"
    by blast
  then have b: "seed_verify ''token-dave'' = Some dave" by simp
  show ?thesis using a mem b by blast
qed

subsection \<open>Who receives a broadcast\<close>

lemma verified_session_user:
  assumes "verified_session jwt_verify s"
  obtains t u where "connected s" and "handshake_auth_token s = Some t"
    and "jwt_verify t = Some u" and "data_user s = Some u"
    and "set (rooms s) = {''user_'' @ jwt_user.user_id u, socket_id s}"
  using assms by (auto simp add: verified_session_def split: option.splits)

lemma connection_sockets:
  assumes "s \<in> set (sockets (connection jwt_verify c srv))"
  shows "s \<in> set (sockets srv) \<or> (verified_session jwt_verify s \<and> socket_id s = fst c)"
proof (cases "connected (on_connection jwt_verify (new_socket (fst c) (snd c)))")
  case False
  then show ?thesis using assms by (simp add: connection_def)
next
  case True
  then obtain t u where t: "snd c = Some t" "t \<noteq> []" "jwt_verify t = Some u"
    by (auto simp add: on_connection_connected)
  have "on_connection jwt_verify (new_socket (fst c) (snd c))
     = \<lparr>socket_id = fst c, handshake_auth_token = Some t, data_user = Some u,
        rooms = List.insert (''user_'' @ jwt_user.user_id u) [fst c], connected = True\<rparr>"
    using t by (rule on_connection_verified)
  then show ?thesis using assms t by (auto simp add: connection_def verified_session_def)
qed

lemma connection_keeps_log:
  "emitted (connection jwt_verify c srv) = emitted srv \<and>
   delivered (connection jwt_verify c srv) = delivered srv"
  by (simp add: connection_def Let_def)

lemma connections_keeps_log:
  "emitted (connections jwt_verify cs srv) = emitted srv \<and>
   delivered (connections jwt_verify cs srv) = delivered srv"
  by (induction cs arbitrary: srv) (simp_all add: connection_keeps_log)

text \<open>Every socket of a server reached from the empty one by handshakes is a verified
  session whose id is the id of one of the handshakes.\<close>

lemma connections_sockets:
  "\<forall>s \<in> set (sockets srv). verified_session jwt_verify s \<and> socket_id s \<in> ids \<Longrightarrow>
   \<forall>s \<in> set (sockets (connections jwt_verify cs srv)).
      verified_session jwt_verify s \<and> socket_id s \<in> ids \<union> fst ` set cs"
proof (induction cs arbitrary: srv ids)
  case Nil
  then show ?case by simp
next
  case (Cons c cs)
  have "\<forall>s \<in> set (sockets (connection jwt_verify c srv)).
          verified_session jwt_verify s \<and> socket_id s \<in> insert (fst c) ids"
    using Cons.prems connection_sockets [of _ jwt_verify c srv] by blast
  then have "\<forall>s \<in> set (sockets (connections jwt_verify cs (connection jwt_verify c srv))).
          verified_session jwt_verify s \<and> socket_id s \<in> insert (fst c) ids \<union> fst ` set cs"
    by (rule Cons.IH)
  then show ?case by simp
qed

lemma connections_from_empty:
  "\<forall>s \<in> set (sockets (connections jwt_verify cs io_empty)).
      verified_session jwt_verify s \<and> socket_id s \<in> fst ` set cs"
  using connections_sockets [of io_empty jwt_verify "{}" cs] by (simp add: io_empty_def)

text \<open>
  The rooms a session is in are its own and its user's.  The five channels the broadcast
  helpers publish on are neither a user's room nor, unless a socket id happens to be such
  a name, a socket's own room: whatever handshakes came before, a broadcast on one of
  them is delivered to no socket.
\<close>

lemma task_channel_has_no_recipient:
  assumes "channel \<in> set [''task/status/updated'', ''task/comment/new'',
                          ''task/attachment/uploaded'', ''task/reorder'', ''activity/stream'']"
    and "channel \<notin> fst ` set cs"
  shows "recipients (connections jwt_verify cs io_empty) channel = []"
proof -
  have "\<forall>s \<in> set (sockets (connections jwt_verify cs io_empty)). channel \<notin> set (rooms s)"
  proof
    fix s
    assume "s \<in> set (sockets (connections jwt_verify cs io_empty))"
    then have v: "verified_session jwt_verify s" and i: "socket_id s \<in> fst ` set cs"
      using connections_from_empty [of jwt_verify cs] by blast+
    from v obtain t u
      where "data_user s = Some u" and "handshake_auth_token s = Some t"
        and r: "set (rooms s) = {''user_'' @ jwt_user.user_id u, socket_id s}"
      by (rule verified_session_user)
    have own: "channel \<noteq> socket_id s"
      using assms(2) i by metis
    have "hd channel \<noteq> CHR ''u''"
      using assms(1) by auto
    then have user: "channel \<noteq> ''user_'' @ jwt_user.user_id u"
      by auto
    show "channel \<notin> set (rooms s)"
      using own user by (simp add: r)
  qed
  then show ?thesis
    by (simp add: recipients_def filter_empty_conv)
qed

text \<open>A socket that receives what is published to the room \<^verbatim>\<open>user_<id>\<close> is the
  session of that identity, or has that very name as its socket id.\<close>

lemma user_room_recipients:
  assumes "s \<in> set (recipients (connections jwt_verify cs io_empty) (''user_'' @ uid))"
  shows "(\<exists>u. data_user s = Some u \<and> jwt_user.user_id u = uid) \<or> socket_id s = ''user_'' @ uid"
proof -
  from assms have m: "s \<in> set (sockets (connections jwt_verify cs io_empty))"
    and r: "''user_'' @ uid \<in> set (rooms s)"
    by (simp_all add: recipients_def)
  from m have "verified_session jwt_verify s"
    using connections_from_empty [of jwt_verify cs] by blast
  then obtain t u
    where "handshake_auth_token s = Some t" and "data_user s = Some u"
      and "set (rooms s) = {''user_'' @ jwt_user.user_id u, socket_id s}"
    by (rule verified_session_user)
  then show ?thesis using r by auto
qed

text \<open>
  C6.  The claim: a task-scoped event is delivered to exactly the connected sessions
  subscribed to the task's workspace.  Bob's verified session is the one connected socket;
  count it as subscribed to workspace1, the workspace of task1.  The status event of task1
  is emitted on the channel \<^verbatim>\<open>task/status/updated\<close> and delivered to no socket: the
  helper addresses the room named like the channel, and Bob's socket is in the rooms
  \<^verbatim>\<open>user_user2\<close> and \<^verbatim>\<open>socket-bob\<close>.
\<close>

theorem task_event_misses_workspace_subscriber:
  "map socket_id (sockets seed_io) = [''socket-bob'']
   \<and> map rooms (sockets seed_io) = [[''user_user2'', ''socket-bob'']]
   \<and> map socket_id
       (spec_workspace_audience [(''socket-bob'', ''workspace1'')] ''workspace1'' seed_io)
     = [''socket-bob'']
   \<and> map fst (emitted (broadcastTaskStatusUpdate ''2024-02-01T00:00:00.000Z'' ''task1''
                 ''In Progress'' seed_io)) = [''task/status/updated'']
   \<and> delivered (broadcastTaskStatusUpdate ''2024-02-01T00:00:00.000Z'' ''task1''
        ''In Progress'' seed_io) = []"
  by (simp add: broadcastTaskStatusUpdate_def spec_workspace_audience_def seed_io_def
        seed_verify_def bob_def socket_defs)

section \<open>Properties of the mutation endpoints\<close>

lemmas query_defs =
  select_task_def select_access_def select_owner_def res_json_def res_status_json_def
  message_body_def validStatuses_def

lemmas endpoint_defs =
  post_task_comment_def post_task_status_def update_task_status_def next_comment_id_def
  put_task_def put_task_fields_def task_row_json_def schema_tasks_check_def
  schema_task_activity_check_def

subsection \<open>No endpoint publishes\<close>

text \<open>The three endpoints return the socket.io server as they found it: nothing is emitted
  and nothing delivered, whatever the request, the store and the outcome.\<close>

lemma post_task_status_io: "io (snd (post_task_status chk ins now user tid st w)) = io w"
  by (simp add: post_task_status_def Let_def split: option.splits list.splits)

lemma post_task_comment_io: "io (snd (post_task_comment now user tid c m w)) = io w"
  by (simp add: post_task_comment_def Let_def split: option.splits list.splits)

lemma put_task_io: "io (snd (put_task chk dp now user tid b w)) = io w"
  by (simp add: put_task_def Let_def split: option.splits list.splits)

text \<open>
  C1.  The claim: when the durable write of a mutation commits, the event is published
  before the endpoint answers success.  Bob, a member of workspace1, comments on task1
  while his socket is connected: the comment row is inserted, the answer is 200, and
  nothing has been emitted or delivered.
\<close>

theorem mutation_commits_without_publishing:
  "db.comments (pool seed_world) = []
   \<and> status_code (fst (post_task_comment ''2024-02-01T00:00:00.000Z'' bob ''task1''
        ''On it.'' None seed_world)) = 200
   \<and> map comment_row.content (db.comments (pool (snd (post_task_comment
        ''2024-02-01T00:00:00.000Z'' bob ''task1'' ''On it.'' None seed_world))))
     = [''On it.'']
   \<and> emitted (io (snd (post_task_comment ''2024-02-01T00:00:00.000Z'' bob ''task1''
        ''On it.'' None seed_world))) = []
   \<and> delivered (io (snd (post_task_comment ''2024-02-01T00:00:00.000Z'' bob ''task1''
        ''On it.'' None seed_world))) = []"
  by (simp add: endpoint_defs server_fixture_defs query_defs socket_defs Let_def)

subsection \<open>The two statements of the status endpoint\<close>

text \<open>
  Alice is Admin.  On a store built from the schema file her change of task1 to Completed
  passes the \<^verbatim>\<open>CHECK\<close> of \<^verbatim>\<open>tasks\<close>, so the \<^verbatim>\<open>UPDATE\<close> is written; the
  \<^verbatim>\<open>INSERT\<close> into \<^verbatim>\<open>task_activity\<close> is refused, the answer is 500, and the new
  status stays written.  Nothing is emitted.
\<close>

lemma status_change_on_schema_store:
  "fst (post_task_status schema_tasks_check schema_task_activity_check
          ''2024-02-01T00:00:00.000Z'' alice ''task1'' (Some ''Completed'') seed_world)
     = res_status_json 500 (message_body ''Error changing status'')
   \<and> map task_row.status (db.tasks (pool (snd (post_task_status schema_tasks_check
        schema_task_activity_check ''2024-02-01T00:00:00.000Z'' alice ''task1''
        (Some ''Completed'') seed_world)))) = [''Completed'']
   \<and> task_activity (pool (snd (post_task_status schema_tasks_check
        schema_task_activity_check ''2024-02-01T00:00:00.000Z'' alice ''task1''
        (Some ''Completed'') seed_world))) = []
   \<and> emitted (io (snd (post_task_status schema_tasks_check
        schema_task_activity_check ''2024-02-01T00:00:00.000Z'' alice ''task1''
        (Some ''Completed'') seed_world))) = []"
  by (simp add: endpoint_defs server_fixture_defs query_defs socket_defs Let_def)

subsection \<open>Event names\<close>

text \<open>
  C2.  The claim: a status change is emitted as \<^verbatim>\<open>task_status_updated\<close> with payload
  \<^verbatim>\<open>{task_id, status, timestamp}\<close>, a comment as \<^verbatim>\<open>comment_created\<close> and a reorder
  as \<^verbatim>\<open>task_reorder\<close>, the names the client listens for.  The broadcast helper for a
  status change emits \<^verbatim>\<open>task/status/updated\<close> with the keys \<^verbatim>\<open>task_id\<close>,
  \<^verbatim>\<open>new_status\<close>, \<^verbatim>\<open>timestamp\<close>; the helpers for comments and reorders emit
  \<^verbatim>\<open>task/comment/new\<close> and \<^verbatim>\<open>task/reorder\<close>.  None of the three names is among the
  client's listeners; only \<^verbatim>\<open>activity/stream\<close> is.
\<close>

theorem broadcast_names_differ_from_listeners:
  "emitted (broadcastTaskStatusUpdate ''2024-02-01T00:00:00.000Z'' ''task1'' ''In Progress''
      io_empty)
     = [(''task/status/updated'',
         JObj [(''task_id'', JStr ''task1''), (''new_status'', JStr ''In Progress''),
               (''timestamp'', JStr ''2024-02-01T00:00:00.000Z'')])]
   \<and> ''task/status/updated'' \<notin> set registered_listeners
   \<and> listener_name (Task_status_updated p) = ''task_status_updated''
   \<and> map fst (emitted (broadcastCommentCreated c io_empty)) = [''task/comment/new'']
   \<and> ''task/comment/new'' \<notin> set registered_listeners
   \<and> listener_name (Comment_created q) = ''comment_created''
   \<and> map fst (emitted (broadcastTaskReordered r io_empty)) = [''task/reorder'']
   \<and> ''task/reorder'' \<notin> set registered_listeners
   \<and> listener_name (Task_reorder r) = ''task_reorder''
   \<and> map fst (emitted (broadcastActivityStream a io_empty)) = [''activity/stream'']
   \<and> ''activity/stream'' \<in> set registered_listeners"
  by (simp add: broadcastTaskStatusUpdate_def broadcastCommentCreated_def
        broadcastTaskReordered_def broadcastActivityStream_def socket_defs
        registered_listeners_def)

subsection \<open>Who may change a status\<close>

text \<open>For a valid status and an existing task, the endpoint answers 403 unless the caller
  is Admin, or is both a member of the task's workspace and its owner; this is decided
  before any statement that writes, so it holds for every store.\<close>

lemma post_task_status_forbidden_iff:
  assumes "v \<in> set validStatuses" and "select_task tid (pool w) = t # ts"
  shows "fst (post_task_status chk ins now user tid (Some v) w)
           = res_status_json 403 (message_body ''Forbidden'')
         \<longleftrightarrow> \<not> (jwt_user.role user = ''Admin'' \<or>
                (select_access (task_row.workspace_id t) (jwt_user.user_id user) (pool w) \<noteq> [] \<and>
                 (\<exists>r rs. select_owner (task_row.workspace_id t) (pool w) = r # rs \<and>
                         workspace_row.owner_id r = jwt_user.user_id user)))"
  using assms
  by (auto simp add: post_task_status_def Let_def res_status_json_def res_json_def
        message_body_def split: list.splits)

lemma post_task_status_forbidden_unchanged:
  "fst (post_task_status chk ins now user tid st w)
     = res_status_json 403 (message_body ''Forbidden'')
   \<Longrightarrow> snd (post_task_status chk ins now user tid st w) = w"
  by (auto simp add: post_task_status_def Let_def res_status_json_def res_json_def
        message_body_def split: list.splits option.splits if_splits)

text \<open>
  C7.  The claim: a status change succeeds if and only if the caller is Admin, the owner of
  the task's workspace or a member of it.  Bob is a member of workspace1 (a Team Member,
  not its owner and not Admin); his status change of task1 to the valid status Completed
  is answered 403 Forbidden and leaves the world as it was, whatever the store accepts.
  The comment endpoint accepts the same caller on the same task.
\<close>

theorem member_status_change_forbidden:
  "select_access ''workspace1'' (jwt_user.user_id bob) (pool seed_world) \<noteq> []
   \<and> ''Completed'' \<in> set validStatuses
   \<and> post_task_status chk ins ''2024-02-01T00:00:00.000Z'' bob ''task1''
        (Some ''Completed'') seed_world
      = (res_status_json 403 (message_body ''Forbidden''), seed_world)
   \<and> post_task_status schema_tasks_check schema_task_activity_check
        ''2024-02-01T00:00:00.000Z'' bob ''task1'' (Some ''Completed'') seed_world
      = (res_status_json 403 (message_body ''Forbidden''), seed_world)
   \<and> status_code (fst (post_task_comment ''2024-02-01T00:00:00.000Z'' bob ''task1''
        ''On it.'' None seed_world)) = 200"
  by (simp add: endpoint_defs server_fixture_defs query_defs socket_defs Let_def)

subsection \<open>Status validation\<close>

text \<open>The status endpoint answers 400 for an absent status and for one outside
  \<^verbatim>\<open>validStatuses\<close>, before it reads or writes anything.\<close>

lemma post_task_status_rejects_invalid:
  "st = None \<or> (\<exists>v. st = Some v \<and> v \<notin> set validStatuses) \<Longrightarrow>
   post_task_status chk ins now user tid st w
     = (res_status_json 400 (message_body ''Invalid status''), w)"
  by (auto simp add: post_task_status_def)

text \<open>The update endpoint has no such answer: it never replies 400.\<close>

lemma put_task_no_validation_error:
  "status_code (fst (put_task chk dp now user tid b w)) \<noteq> 400"
  by (simp add: put_task_def Let_def res_status_json_def res_json_def
        split: option.splits list.splits)

text \<open>
  C8.  The claim: every request that updates a task's status with a value outside the five
  statuses is rejected with a validation error before any write.  Bob is a member of
  workspace1; his \<^verbatim>\<open>PUT /tasks/task1\<close> with status Bogus reaches the \<^verbatim>\<open>UPDATE\<close>: a
  store without a constraint on the column keeps Bogus and the answer is 200, and a store
  with the schema's constraint refuses the statement and the answer is 500.
\<close>

theorem put_task_takes_unvalidated_status:
  "''Bogus'' \<notin> set validStatuses
   \<and> status_code (fst (put_task (\<lambda>r. True) (\<lambda>d. True) ''2024-02-01T00:00:00.000Z'' bob
        ''task1'' (status_only ''Bogus'') seed_world)) = 200
   \<and> map task_row.status (db.tasks (pool (snd (put_task (\<lambda>r. True) (\<lambda>d. True)
        ''2024-02-01T00:00:00.000Z'' bob ''task1'' (status_only ''Bogus'') seed_world))))
     = [''Bogus'']
   \<and> put_task schema_tasks_check (\<lambda>d. True) ''2024-02-01T00:00:00.000Z'' bob ''task1''
        (status_only ''Bogus'') seed_world
      = (res_status_json 500 (message_body ''Error updating task''), seed_world)"
  by (simp add: endpoint_defs server_fixture_defs query_defs socket_defs Let_def)

end
